theory Spec2Isabelle
  imports Main
begin

section \<open>Python values, exceptions and text\<close>

text \<open>
  A decoded JSON document, as \<^verbatim>\<open>response.json()\<close> returns it: \<^verbatim>\<open>None\<close>, a bool, a
  number, a \<^verbatim>\<open>str\<close>, a \<^verbatim>\<open>list\<close> or a \<^verbatim>\<open>dict\<close> with \<^verbatim>\<open>str\<close> keys. A dict is kept
  as the list of its members in document order; a repeated key takes its last value, as
  Python's decoder does. Text is a \<open>string\<close>, one \<open>char\<close> per character.
\<close>

datatype json =
    JNull
  | JBool bool
  | JNum int
  | JStr string
  | JArr "json list"
  | JObj "(string \<times> json) list"

text \<open>
  The exceptions that the modelled code can raise besides those of the HTTP library:
  \<^verbatim>\<open>KeyError\<close> for a missing \<^verbatim>\<open>str\<close> key and for a missing integer key,
  \<^verbatim>\<open>IndexError\<close>, \<^verbatim>\<open>TypeError\<close>, and the \<^verbatim>\<open>ValidationError\<close> of the model
  library. The text \<^verbatim>\<open>str(e)\<close> of such an exception is the interpreter's business and
  is a parameter of the model (\<open>exc_str\<close> below).
\<close>

datatype exn = KeyError string | IntKeyError int | IndexError | TypeError | ValidationError

definition nl :: string where
  "nl = [CHR 0x0A]"

definition dq :: string where
  "dq = [CHR 0x22]"

definition sq :: string where
  "sq = [CHR 0x27]"

fun is_prefix :: "string \<Rightarrow> string \<Rightarrow> bool" where
  "is_prefix [] s = True"
| "is_prefix (a # as) [] = False"
| "is_prefix (a # as) (b # bs) = (a = b \<and> is_prefix as bs)"

text \<open>Python's \<^verbatim>\<open>sub in s\<close> on two strings.\<close>

fun contains :: "string \<Rightarrow> string \<Rightarrow> bool" where
  "contains sub [] = (sub = [])"
| "contains sub (c # cs) = (is_prefix sub (c # cs) \<or> contains sub cs)"

text \<open>\<^verbatim>\<open>str.lower()\<close>, on the ASCII letters.\<close>

definition lower_char :: "char \<Rightarrow> char" where
  "lower_char c =
     (case map_of (zip ''ABCDEFGHIJKLMNOPQRSTUVWXYZ'' ''abcdefghijklmnopqrstuvwxyz'') c of
        Some l \<Rightarrow> l
      | None \<Rightarrow> c)"

definition lower :: "string \<Rightarrow> string" where
  "lower s = map lower_char s"

text \<open>\<^verbatim>\<open>"\n".join(parts)\<close>.\<close>

fun join_nl :: "string list \<Rightarrow> string" where
  "join_nl [] = []"
| "join_nl [p] = p"
| "join_nl (p # q # ps) = p @ nl @ join_nl (q # ps)"

text \<open>\<^verbatim>\<open>str(n)\<close> of an integer, as an f-string renders it.\<close>

definition digit_char :: "nat \<Rightarrow> char" where
  "digit_char d = ''0123456789'' ! d"

function show_nat :: "nat \<Rightarrow> string" where
  "show_nat n = (if n < 10 then [digit_char n] else show_nat (n div 10) @ [digit_char (n mod 10)])"
  by pat_completeness auto
termination
  by (relation "measure id") auto

declare show_nat.simps [simp del]

definition show_int :: "int \<Rightarrow> string" where
  "show_int i = (if i < 0 then CHR ''-'' # show_nat (nat (- i)) else show_nat (nat i))"

text \<open>
  Subscripting a decoded JSON value: \<^verbatim>\<open>v[key]\<close> with a \<^verbatim>\<open>str\<close> key and \<^verbatim>\<open>v[0]\<close>.
  A dict without the key raises \<^verbatim>\<open>KeyError\<close> (a decoded dict has no integer key, so
  \<^verbatim>\<open>d[0]\<close> always does); an empty list or string at index 0 raises \<^verbatim>\<open>IndexError\<close>;
  a list or string indexed by a \<^verbatim>\<open>str\<close>, and anything that is not subscriptable,
  raises \<^verbatim>\<open>TypeError\<close>.
\<close>

fun getitem_key :: "json \<Rightarrow> string \<Rightarrow> exn + json" where
  "getitem_key (JObj members) key =
     (case map_of (rev members) key of None \<Rightarrow> Inl (KeyError key) | Some v \<Rightarrow> Inr v)"
| "getitem_key v key = Inl TypeError"

fun getitem_0 :: "json \<Rightarrow> exn + json" where
  "getitem_0 (JArr []) = Inl IndexError"
| "getitem_0 (JArr (x # xs)) = Inr x"
| "getitem_0 (JStr []) = Inl IndexError"
| "getitem_0 (JStr (c # cs)) = Inr (JStr [c])"
| "getitem_0 (JObj members) = Inl (IntKeyError 0)"
| "getitem_0 v = Inl TypeError"

section \<open>The completion client: \<^verbatim>\<open>LMStudioLLM._call\<close>\<close>

text \<open>
  The fields of \<^verbatim>\<open>LMStudioLLM\<close> that \<^verbatim>\<open>_call\<close> reads outside the request payload.
  (\<^verbatim>\<open>model\<close>, \<^verbatim>\<open>temperature\<close> and \<^verbatim>\<open>max_tokens\<close> only travel in the payload.)
\<close>

record LMStudioLLM =
  base_url :: string
  timeout :: int
  max_retries :: int

text \<open>
  What one \<^verbatim>\<open>session.post\<close> does: it returns a response (status code, body text, and
  what \<^verbatim>\<open>response.json()\<close> gives: the decoded document, or on a body that is not JSON
  the text of the \<^verbatim>\<open>requests.exceptions.JSONDecodeError\<close>, which is a
  \<^verbatim>\<open>RequestException\<close>), or raises \<^verbatim>\<open>Timeout\<close>, \<^verbatim>\<open>ConnectionError\<close> or another
  \<^verbatim>\<open>RequestException\<close> with its text.
\<close>

datatype http_outcome =
    Response int string "string + json"
  | Timeout
  | ConnectionError
  | RequestException string

text \<open>What the client does to the outside world, in order: a request, or a sleep.\<close>

datatype event = Post nat | Sleep nat

text \<open>\<^verbatim>\<open>result["choices"][0]["message"]["content"]\<close>\<close>

definition extract_content :: "json \<Rightarrow> exn + json" where
  "extract_content result =
     (case getitem_key result ''choices'' of
        Inl e \<Rightarrow> Inl e
      | Inr choices \<Rightarrow>
          (case getitem_0 choices of
             Inl e \<Rightarrow> Inl e
           | Inr choice \<Rightarrow>
               (case getitem_key choice ''message'' of
                  Inl e \<Rightarrow> Inl e
                | Inr message \<Rightarrow> getitem_key message ''content'')))"

text \<open>
  The statement after the handlers:
  \<^verbatim>\<open>if attempt < self.max_retries - 1: time.sleep(2 ** attempt)\<close>.
\<close>

definition backoff :: "LMStudioLLM \<Rightarrow> nat \<Rightarrow> event list" where
  "backoff llm attempt =
     (if int attempt < max_retries llm - 1 then [Sleep (2 ^ attempt)] else [])"

definition logged :: "event list \<Rightarrow> 'a \<times> event list \<Rightarrow> 'a \<times> event list" where
  "logged evs r = (fst r, evs @ snd r)"

text \<open>
  The \<^verbatim>\<open>for attempt in range(self.max_retries)\<close> loop, over the attempts still to run.
  The result is what \<^verbatim>\<open>_call\<close> returns (\<open>Inr\<close>) or raises (\<open>Inl\<close>), with the
  requests and sleeps made. The branch for a status other than 200 ends in
  \<^verbatim>\<open>continue\<close>, which goes to the next attempt past the sleep; a handled exception
  falls through to it.
\<close>

fun call_loop :: "LMStudioLLM \<Rightarrow> (nat \<Rightarrow> http_outcome) \<Rightarrow> nat list \<Rightarrow> (exn + json) \<times> event list" where
  "call_loop llm post [] = (Inr (JStr ''Error: All retry attempts failed''), [])"
| "call_loop llm post (attempt # rest) =
     (case post attempt of
        Response status_code text body \<Rightarrow>
          if status_code = 200 then
            (case body of
               Inr result \<Rightarrow> (extract_content result, [Post attempt])
             | Inl e \<Rightarrow>
                 if int attempt = max_retries llm - 1
                 then (Inr (JStr (''Error connecting to LM Studio: '' @ e)), [Post attempt])
                 else logged (Post attempt # backoff llm attempt) (call_loop llm post rest))
          else if int attempt = max_retries llm - 1
          then (Inr (JStr (''Error: '' @ show_int status_code @ '' - '' @ text)), [Post attempt])
          else logged [Post attempt] (call_loop llm post rest)
      | Timeout \<Rightarrow>
          if int attempt = max_retries llm - 1
          then (Inr (JStr (''Error: Request timed out after '' @ show_int (timeout llm)
                  @ '' seconds. Please check if LM Studio is running and responsive.'')),
                [Post attempt])
          else logged (Post attempt # backoff llm attempt) (call_loop llm post rest)
      | ConnectionError \<Rightarrow>
          if int attempt = max_retries llm - 1
          then (Inr (JStr (''Error: Cannot connect to LM Studio at '' @ base_url llm
                  @ ''. Please ensure LM Studio is running.'')),
                [Post attempt])
          else logged (Post attempt # backoff llm attempt) (call_loop llm post rest)
      | RequestException e \<Rightarrow>
          if int attempt = max_retries llm - 1
          then (Inr (JStr (''Error connecting to LM Studio: '' @ e)), [Post attempt])
          else logged (Post attempt # backoff llm attempt) (call_loop llm post rest))"

text \<open>
  \<^verbatim>\<open>_call(prompt)\<close>: \<open>post prompt k\<close> is the outcome of the request of attempt \<open>k\<close>.
\<close>

definition LMStudioLLM_call ::
  "LMStudioLLM \<Rightarrow> (string \<Rightarrow> nat \<Rightarrow> http_outcome) \<Rightarrow> string \<Rightarrow> (exn + json) \<times> event list" where
  "LMStudioLLM_call llm post prompt = call_loop llm (post prompt) [0 ..< nat (max_retries llm)]"

section \<open>The search tool: \<^verbatim>\<open>TavilySearchTool._run\<close>\<close>

text \<open>
  A field of the provider's answer, read with \<^verbatim>\<open>d.get(key, default)\<close>: the key is
  absent (the default is used), or holds \<^verbatim>\<open>null\<close>, or holds a text.
\<close>

datatype field = Absent | Null | Str string

record source =
  title :: field
  url :: field
  content :: field

record tavily_data =
  answer :: field
  results :: "source list"

text \<open>
  What \<^verbatim>\<open>requests.post\<close> does for one search: a response (status code, body text,
  and the decoded body or the text of the decoder's \<^verbatim>\<open>RequestException\<close>), or a
  \<^verbatim>\<open>RequestException\<close> (timeouts and connection failures are among them) with its text.
\<close>

datatype search_outcome =
    SearchResponse int string "string + tavily_data"
  | SearchRequestException string

text \<open>An f-string renders \<^verbatim>\<open>None\<close> as the text \<^verbatim>\<open>None\<close>.\<close>

definition get_str :: "field \<Rightarrow> string \<Rightarrow> string" where
  "get_str f dflt = (case f of Absent \<Rightarrow> dflt | Null \<Rightarrow> ''None'' | Str s \<Rightarrow> s)"

text \<open>
  \<^verbatim>\<open>source.get("content", "No content available")[:300]\<close>: slicing \<^verbatim>\<open>None\<close> raises
  \<^verbatim>\<open>TypeError\<close>, which is not a \<^verbatim>\<open>RequestException\<close> and leaves \<^verbatim>\<open>_run\<close>.
\<close>

definition content_snippet :: "field \<Rightarrow> exn + string" where
  "content_snippet f =
     (case f of
        Absent \<Rightarrow> Inr (take 300 ''No content available'')
      | Null \<Rightarrow> Inl TypeError
      | Str s \<Rightarrow> Inr (take 300 s))"

definition format_source :: "nat \<Rightarrow> source \<Rightarrow> exn + string" where
  "format_source i src =
     (case content_snippet (content src) of
        Inl e \<Rightarrow> Inl e
      | Inr snippet \<Rightarrow>
          Inr (''\<newline>**'' @ show_nat i @ ''. '' @ get_str (title src) ''Untitled Source''
               @ ''**\<newline>- **URL:** '' @ get_str (url src) ''#''
               @ ''\<newline>- **Content:** '' @ snippet @ ''...\<newline>\<newline>---\<newline>''))"

text \<open>\<^verbatim>\<open>for i, source in enumerate(sources, 1): formatted_output += ...\<close>\<close>

fun format_sources :: "nat \<Rightarrow> source list \<Rightarrow> string \<Rightarrow> exn + string" where
  "format_sources i [] formatted_output = Inr formatted_output"
| "format_sources i (src # srcs) formatted_output =
     (case format_source i src of
        Inl e \<Rightarrow> Inl e
      | Inr t \<Rightarrow> format_sources (Suc i) srcs (formatted_output @ t))"

definition search_header :: "string \<Rightarrow> tavily_data \<Rightarrow> string" where
  "search_header query data =
     ''\<newline>## Search Results for: '' @ dq @ query @ dq
     @ ''\<newline>\<newline>### Summary\<newline>'' @ get_str (answer data) ''No summary available''
     @ ''\<newline>\<newline>### Sources\<newline>''"

text \<open>\<^verbatim>\<open>_run(query)\<close> on the outcome of its request: the text returned, or the exception raised.\<close>

definition TavilySearchTool_run :: "search_outcome \<Rightarrow> string \<Rightarrow> exn + string" where
  "TavilySearchTool_run outcome query =
     (case outcome of
        SearchResponse status_code text body \<Rightarrow>
          if status_code = 200 then
            (case body of
               Inr data \<Rightarrow> format_sources 1 (results data) (search_header query data)
             | Inl e \<Rightarrow> Inr (''Search Error: '' @ e))
          else Inr (''Tavily API Error: '' @ show_int status_code @ '' - '' @ text)
      | SearchRequestException e \<Rightarrow> Inr (''Search Error: '' @ e))"

section \<open>The state and the two stages\<close>

datatype message = HumanMessage string | AIMessage string

record ResearchState =
  topic :: string
  research_plan :: string
  search_results :: string
  analysis :: string
  final_report :: string
  messages :: "message list"
  next_step :: string
  error :: "string option"

text \<open>
  Everything outside the program: the completion endpoint (its outcome for a prompt and an
  attempt), the search provider (its outcome for the \<open>k\<close>-th search of a run and its
  query), the interpreter's text for an exception, and whether the graph runtime hands a
  stage the very list object that it holds for \<^verbatim>\<open>messages\<close> (so that an in-place
  \<^verbatim>\<open>append\<close> is seen by the runtime) or a snapshot of it.
\<close>

record world =
  llm_post :: "string \<Rightarrow> nat \<Rightarrow> http_outcome"
  tavily_post :: "nat \<Rightarrow> string \<Rightarrow> search_outcome"
  exc_str :: "exn \<Rightarrow> string"
  shares_state :: bool

definition planner_prompt :: "string \<Rightarrow> string" where
  "planner_prompt tp =
     ''\<newline>        As a research methodology expert, create a detailed research plan to investigate this topic: ''
     @ dq @ tp @ dq
     @ ''\<newline>\<newline>        Your plan should include:''
     @ ''\<newline>        1. Key questions that need to be answered''
     @ ''\<newline>        2. Types of sources to prioritize (academic, news, official, etc.)''
     @ ''\<newline>        3. Multiple search strategies and keyword variations''
     @ ''\<newline>        4. Red flags or potential biases to watch for''
     @ ''\<newline>        5. Verification methods and fact-checking approaches''
     @ ''\<newline>\<newline>        Make the plan specific, actionable, and thorough for this particular topic.''
     @ ''\<newline>        ''"

definition fallback_sections :: string where
  "fallback_sections =
     ''\<newline>\<newline>### Key Questions''
     @ ''\<newline>- What is the current status of this topic?''
     @ ''\<newline>- What evidence supports or contradicts this claim?''
     @ ''\<newline>- What do authoritative sources say?''
     @ ''\<newline>\<newline>### Search Strategy''
     @ ''\<newline>- Direct topic search''
     @ ''\<newline>- Evidence-based search''
     @ ''\<newline>- Expert opinion search''
     @ ''\<newline>- Recent news search''
     @ ''\<newline>\<newline>### Source Prioritization''
     @ ''\<newline>- Official sources first''
     @ ''\<newline>- Peer-reviewed content''
     @ ''\<newline>- Reputable news outlets''
     @ ''\<newline>- Expert commentary''
     @ ''\<newline>\<newline>### Verification Methods''
     @ ''\<newline>- Cross-reference multiple sources''
     @ ''\<newline>- Check publication dates''
     @ ''\<newline>- Verify author credentials''
     @ ''\<newline>- Look for consensus''
     @ ''\<newline>                ''"

definition fallback_plan :: "string \<Rightarrow> string" where
  "fallback_plan tp = ''\<newline>## Research Plan for: '' @ tp @ fallback_sections"

text \<open>
  The call \<^verbatim>\<open>self.llm(prompt)\<close> is the \<^verbatim>\<open>__call__\<close> of the base class \<^verbatim>\<open>LLM\<close>
  of the model library: it runs \<^verbatim>\<open>_call\<close>, lets its exception pass, and wraps what it
  returns in \<^verbatim>\<open>Generation(text=...)\<close>, which accepts a \<^verbatim>\<open>str\<close> and raises a
  \<^verbatim>\<open>ValidationError\<close> on anything else. So the caller gets a text or an exception.
\<close>

definition LLM_call ::
  "LMStudioLLM \<Rightarrow> (string \<Rightarrow> nat \<Rightarrow> http_outcome) \<Rightarrow> string \<Rightarrow> exn + string" where
  "LLM_call llm post prompt =
     (case fst (LMStudioLLM_call llm post prompt) of
        Inl e \<Rightarrow> Inl e
      | Inr (JStr generated) \<Rightarrow> Inr generated
      | Inr v \<Rightarrow> Inl ValidationError)"

text \<open>
  The test \<^verbatim>\<open>"Error:" in research_plan or "timed out" in research_plan.lower()\<close> and
  the value that \<^verbatim>\<open>research_plan\<close> holds after it.
\<close>

definition checked_plan :: "string \<Rightarrow> string \<Rightarrow> string" where
  "checked_plan tp generated =
     (if contains ''Error:'' generated \<or> contains ''timed out'' (lower generated)
      then fallback_plan tp else generated)"

text \<open>
  The first two statements of the \<^verbatim>\<open>try\<close> block of the planning stage: the plan to
  store, or the exception that the call of the model raised.
\<close>

definition planner_try :: "LMStudioLLM \<Rightarrow> world \<Rightarrow> string \<Rightarrow> exn + string" where
  "planner_try llm w tp =
     (case LLM_call llm (llm_post w) (planner_prompt tp) of
        Inl e \<Rightarrow> Inl e
      | Inr generated \<Rightarrow> Inr (checked_plan tp generated))"

definition research_planner_node :: "LMStudioLLM \<Rightarrow> world \<Rightarrow> ResearchState \<Rightarrow> ResearchState" where
  "research_planner_node llm w state =
     (case planner_try llm w (topic state) of
        Inr plan \<Rightarrow>
          state\<lparr>research_plan := plan,
                messages := messages state @ [AIMessage (''Research plan created for: '' @ topic state)],
                next_step := ''web_searcher''\<rparr>
      | Inl e \<Rightarrow>
          state\<lparr>error := Some (''Error in research planning: '' @ exc_str w e),
                research_plan := ''Basic research plan for: '' @ topic state
                   @ '' (Error occurred in detailed planning)''\<rparr>)"

definition search_queries :: "string \<Rightarrow> string list" where
  "search_queries tp =
     [tp, tp @ '' facts evidence 2024'', tp @ '' expert analysis'', tp @ '' recent research findings'']"

text \<open>
  The loop \<^verbatim>\<open>for i, query in enumerate(search_queries)\<close> with its inner
  \<^verbatim>\<open>try\<close>: \<open>i\<close> is the index of \<open>query\<close>. It carries \<^verbatim>\<open>all_results\<close> and
  \<^verbatim>\<open>successful_searches\<close>, and the queries handed to \<^verbatim>\<open>_run\<close> so far.
\<close>

fun search_loop ::
  "world \<Rightarrow> nat \<Rightarrow> string list \<Rightarrow> string list \<times> nat \<times> string list
     \<Rightarrow> string list \<times> nat \<times> string list" where
  "search_loop w i [] acc = acc"
| "search_loop w i (query # queries) (all_results, successful_searches, issued) =
     (case TavilySearchTool_run (tavily_post w i query) query of
        Inr result \<Rightarrow>
          search_loop w (Suc i) queries
            (all_results @ [''### Search Query '' @ show_nat (i + 1) @ '': '' @ sq @ query @ sq
                             @ nl @ result @ nl],
             (if \<not> contains ''Error:'' result then successful_searches + 1 else successful_searches),
             issued @ [query])
      | Inl e \<Rightarrow>
          search_loop w (Suc i) queries
            (all_results @ [''**Search '' @ show_nat (i + 1) @ ''** for '' @ sq @ query @ sq
                             @ '' failed: '' @ exc_str w e],
             successful_searches,
             issued @ [query]))"

text \<open>
  The outer \<^verbatim>\<open>try\<close> block of the searching stage: the state it leaves, or the
  exception that reaches the outer handler, and the queries that the block handed to the
  search tool. After the loop come the join and three writes to the state, none of which
  raises, so the block always ends with a state.
\<close>

definition web_searcher_run :: "world \<Rightarrow> ResearchState \<Rightarrow> (exn + ResearchState) \<times> string list" where
  "web_searcher_run w state =
     (case search_loop w 0 (search_queries (topic state)) ([], 0, []) of
        (all_results, successful_searches, issued) \<Rightarrow>
          (Inr (state\<lparr>search_results := join_nl all_results,
                  messages := messages state @
                    [AIMessage (''Completed '' @ show_nat (length (search_queries (topic state)))
                       @ '' searches ('' @ show_nat successful_searches @ '' successful) for: ''
                       @ topic state)],
                  next_step := ''complete''\<rparr>),
           issued))"

text \<open>The searching stage, with its outer handler.\<close>

definition web_searcher_node :: "world \<Rightarrow> ResearchState \<Rightarrow> ResearchState" where
  "web_searcher_node w state =
     (case fst (web_searcher_run w state) of
        Inr searched \<Rightarrow> searched
      | Inl e \<Rightarrow>
          state\<lparr>error := Some (''Error in web searching: '' @ exc_str w e),
                search_results := ''Error occurred during search phase for: '' @ topic state\<rparr>)"

text \<open>The queries that the searching stage hands to the search tool, in the order of the calls.\<close>

definition issued_queries :: "world \<Rightarrow> ResearchState \<Rightarrow> string list" where
  "issued_queries w state = snd (web_searcher_run w state)"

section \<open>The graph and the facade: \<^verbatim>\<open>ResearchGraph\<close>\<close>

text \<open>
  \<^verbatim>\<open>_build_graph\<close> compiles a \<^verbatim>\<open>StateGraph(ResearchState)\<close> with the entry point
  \<^verbatim>\<open>research_planner\<close> and the edges \<^verbatim>\<open>research_planner\<close> to \<^verbatim>\<open>web_searcher\<close> to
  \<^verbatim>\<open>END\<close>. The runtime holds one value per key of \<^verbatim>\<open>ResearchState\<close>. What a stage
  returns is written back key by key: a plain key takes the returned value, and
  \<^verbatim>\<open>messages\<close>, declared \<^verbatim>\<open>Annotated[List[Any], operator.add]\<close>, becomes the value
  held, plus the list returned. Both stages return the whole state, whose \<^verbatim>\<open>messages\<close>
  is the list they received with one entry appended in place. The value held at that
  moment is that same list when the stage was handed the runtime's own object
  (\<open>shares_state\<close>), and the list as it was before the stage otherwise.
\<close>

definition apply_node :: "world \<Rightarrow> (ResearchState \<Rightarrow> ResearchState) \<Rightarrow> ResearchState \<Rightarrow> ResearchState" where
  "apply_node w node held =
     (let returned = node held;
          current = (if shares_state w then messages returned else messages held)
      in returned\<lparr>messages := current @ messages returned\<rparr>)"

text \<open>The input of \<^verbatim>\<open>invoke\<close> is written the same way, onto an empty \<^verbatim>\<open>messages\<close>.\<close>

definition graph_input :: "ResearchState \<Rightarrow> ResearchState" where
  "graph_input initial = initial\<lparr>messages := [] @ messages initial\<rparr>"

record ResearchGraph =
  llm :: LMStudioLLM

text \<open>\<^verbatim>\<open>ResearchGraph.__init__\<close>: the client gets the URL, a timeout of 180 and the class default of 3 tries.\<close>

definition ResearchGraph_init :: "string \<Rightarrow> string \<Rightarrow> string \<Rightarrow> ResearchGraph" where
  "ResearchGraph_init tavily_api_key lm_studio_url model_name =
     \<lparr>llm = \<lparr>base_url = lm_studio_url, timeout = 180, max_retries = 3\<rparr>\<rparr>"

definition after_planner :: "ResearchGraph \<Rightarrow> world \<Rightarrow> ResearchState \<Rightarrow> ResearchState" where
  "after_planner g w initial =
     apply_node w (research_planner_node (llm g) w) (graph_input initial)"

definition graph_invoke :: "ResearchGraph \<Rightarrow> world \<Rightarrow> ResearchState \<Rightarrow> ResearchState" where
  "graph_invoke g w initial =
     apply_node w (web_searcher_node w) (after_planner g w initial)"

definition initial_state :: "string \<Rightarrow> ResearchState" where
  "initial_state tp =
     \<lparr>topic = tp, research_plan = [], search_results = [], analysis = [],
      final_report = [], messages = [HumanMessage (''Research topic: '' @ tp)],
      next_step = ''research_planner'', error = None\<rparr>"

record research_result =
  result_research_plan :: string
  result_search_results :: string
  result_error :: "string option"

text \<open>
  What the \<^verbatim>\<open>try\<close> block of \<^verbatim>\<open>research_topic\<close> gets from
  \<^verbatim>\<open>self.graph.invoke(initial_state)\<close>: the final state, or the exception that a stage
  let out, which the runtime passes on. Each stage ends in \<^verbatim>\<open>return state\<close> on every
  path of its own handlers, so there is none.
\<close>

definition invoke_outcome :: "ResearchGraph \<Rightarrow> world \<Rightarrow> ResearchState \<Rightarrow> exn + ResearchState" where
  "invoke_outcome g w initial = Inr (graph_invoke g w initial)"

text \<open>
  \<^verbatim>\<open>research_topic\<close>, with its handler. The final state has all three keys, so no
  \<^verbatim>\<open>get\<close> falls back to its default.
\<close>

definition research_topic :: "ResearchGraph \<Rightarrow> world \<Rightarrow> string \<Rightarrow> research_result" where
  "research_topic g w tp =
     (case invoke_outcome g w (initial_state tp) of
        Inr final_state \<Rightarrow>
          \<lparr>result_research_plan = research_plan final_state,
           result_search_results = search_results final_state,
           result_error = error final_state\<rparr>
      | Inl e \<Rightarrow>
          \<lparr>result_research_plan = ''Error occurred during workflow execution'',
           result_search_results = ''Error occurred during workflow execution'',
           result_error = Some (''Graph execution error: '' @ exc_str w e)\<rparr>)"

section \<open>Reference inputs and notions used in the statements\<close>

text \<open>A well-formed answer of the completion endpoint whose message content is \<open>v\<close>.\<close>

definition completion_body :: "json \<Rightarrow> json" where
  "completion_body v = JObj [(''choices'', JArr [JObj [(''message'', JObj [(''content'', v)])]])]"

text \<open>The graph as the application builds it, with the addresses of \<^verbatim>\<open>Config\<close>.\<close>

definition example_graph :: ResearchGraph where
  "example_graph = ResearchGraph_init ''tvly-key'' ''http://127.0.0.1:1234/v1'' ''google/gemma-3-1b''"

text \<open>A text for each exception, as the interpreter could give it.\<close>

definition python_str :: "exn \<Rightarrow> string" where
  "python_str e =
     (case e of
        KeyError key \<Rightarrow> sq @ key @ sq
      | IntKeyError key \<Rightarrow> show_int key
      | IndexError \<Rightarrow> ''list index out of range''
      | TypeError \<Rightarrow> ''object is not subscriptable''
      | ValidationError \<Rightarrow> ''1 validation error for Generation'')"

definition three_results :: tavily_data where
  "three_results =
     \<lparr>answer = Str ''An answer.'',
      results =
        [\<lparr>title = Str ''First'', url = Str ''https://a.example'', content = Str ''Alpha''\<rparr>,
         \<lparr>title = Str ''Second'', url = Str ''https://b.example'', content = Str ''Beta''\<rparr>,
         \<lparr>title = Absent, url = Absent, content = Absent\<rparr>]\<rparr>"

text \<open>
  The completion endpoint answers with a plan; the search provider returns three results
  for the first query and the status 500 for the others.
\<close>

definition world_ok :: world where
  "world_ok =
     \<lparr>llm_post = (\<lambda>prompt k. Response 200 '''' (Inr (completion_body (JStr ''a plan'')))),
      tavily_post = (\<lambda>k query. if k = 0 then SearchResponse 200 '''' (Inr three_results)
                                 else SearchResponse 500 ''down'' (Inl ''not JSON'')),
      exc_str = python_str,
      shares_state = True\<rparr>"

text \<open>The same answers to the requests that a run makes, other answers to any further request.\<close>

definition world_ok_elsewhere :: world where
  "world_ok_elsewhere =
     \<lparr>llm_post = (\<lambda>prompt k. if k < 3 then Response 200 '''' (Inr (completion_body (JStr ''a plan'')))
                              else Timeout),
      tavily_post = (\<lambda>k query. if k = 0 then SearchResponse 200 '''' (Inr three_results)
                                 else if k < 4 then SearchResponse 500 ''down'' (Inl ''not JSON'')
                                 else SearchRequestException ''unreachable''),
      exc_str = python_str,
      shares_state = False\<rparr>"

definition world_timeouts :: world where
  "world_timeouts = world_ok\<lparr>llm_post := (\<lambda>prompt k. Timeout)\<rparr>"

definition world_malformed :: world where
  "world_malformed = world_ok\<lparr>llm_post := (\<lambda>prompt k. Response 200 ''{}'' (Inr (JObj [])))\<rparr>"

definition world_silent :: world where
  "world_silent = world_ok\<lparr>llm_post := (\<lambda>prompt k. Response 200 '''' (Inr (completion_body (JStr ''''))))\<rparr>"

text \<open>The completion endpoint answers with a list where the text of the message should be.\<close>

definition world_list :: world where
  "world_list =
     world_ok\<lparr>llm_post := (\<lambda>prompt k. Response 200 '''' (Inr (completion_body (JArr [JStr ''Error:'']))))\<rparr>"


definition world_down :: world where
  "world_down = world_ok\<lparr>llm_post := (\<lambda>prompt k. ConnectionError),
                            tavily_post := (\<lambda>k query. SearchRequestException ''unreachable'')\<rparr>"

fun is_post :: "event \<Rightarrow> bool" where
  "is_post (Post k) = True"
| "is_post (Sleep d) = False"

definition failed_by_exception :: "http_outcome \<Rightarrow> bool" where
  "failed_by_exception outcome =
     (case outcome of Response status_code text body \<Rightarrow> False | _ \<Rightarrow> True)"

text \<open>
  The trace that a sleep of \<open>2 ^ attempt\<close> between every two consecutive attempts
  gives, for the attempts listed.
\<close>

fun backoff_trace :: "nat list \<Rightarrow> event list" where
  "backoff_trace [] = []"
| "backoff_trace [a] = [Post a]"
| "backoff_trace (a # b # as) = Post a # Sleep (2 ^ a) # backoff_trace (b # as)"

text \<open>An attempt that does not end in a 200 response with a JSON body.\<close>

definition attempt_failed :: "http_outcome \<Rightarrow> bool" where
  "attempt_failed outcome =
     (case outcome of Response status_code text body \<Rightarrow> status_code \<noteq> 200 \<or> isl body | _ \<Rightarrow> True)"

text \<open>An attempt that ends in a failure status, a timeout or a connection failure.\<close>

definition marked_failure :: "http_outcome \<Rightarrow> bool" where
  "marked_failure outcome =
     (case outcome of
        Response status_code text body \<Rightarrow> status_code \<noteq> 200
      | Timeout \<Rightarrow> True
      | ConnectionError \<Rightarrow> True
      | RequestException e \<Rightarrow> False)"

text \<open>The test of the planning stage, on what the client returned or raised.\<close>

definition carries_error_marker :: "exn + json \<Rightarrow> bool" where
  "carries_error_marker r =
     (case r of
        Inr (JStr text) \<Rightarrow> contains ''Error:'' text \<or> contains ''timed out'' (lower text)
      | _ \<Rightarrow> False)"

text \<open>
  The text that the searching stage appends for the query of index \<open>i\<close>, from the
  outcome of that query's own request.
\<close>

definition section_text :: "(exn \<Rightarrow> string) \<Rightarrow> nat \<Rightarrow> string \<Rightarrow> search_outcome \<Rightarrow> string" where
  "section_text str_of i query outcome =
     (case TavilySearchTool_run outcome query of
        Inr result \<Rightarrow>
          ''### Search Query '' @ show_nat (i + 1) @ '': '' @ sq @ query @ sq @ nl @ result @ nl
      | Inl e \<Rightarrow>
          ''**Search '' @ show_nat (i + 1) @ ''** for '' @ sq @ query @ sq @ '' failed: '' @ str_of e)"

definition query_label :: "nat \<Rightarrow> string \<Rightarrow> string" where
  "query_label i query = ''### Search Query '' @ show_nat (i + 1) @ '': '' @ sq @ query @ sq"

text \<open>A search that the provider answers with another status than 200, or not at all.\<close>

definition provider_failed :: "search_outcome \<Rightarrow> bool" where
  "provider_failed outcome =
     (case outcome of
        SearchResponse status_code text body \<Rightarrow> status_code \<noteq> 200 \<or> isl body
      | SearchRequestException e \<Rightarrow> True)"

text \<open>
  The two kinds of text that \<^verbatim>\<open>_run\<close> returns: the formatted results, which begin with
  the heading of the results, and the error-marked text of a provider failure, which
  begins with one of the two error prefixes.
\<close>

definition formatted_results :: "string \<Rightarrow> bool" where
  "formatted_results r = is_prefix ''\<newline>## Search Results for: '' r"

definition error_text :: "string \<Rightarrow> bool" where
  "error_text r = (is_prefix ''Tavily API Error: '' r \<or> is_prefix ''Search Error: '' r)"

text \<open>The \<open>k\<close>-th query of a topic, the outcome of its request, and what \<^verbatim>\<open>_run\<close> makes of it.\<close>

definition nth_query :: "string \<Rightarrow> nat \<Rightarrow> string" where
  "nth_query tp k = search_queries tp ! k"

definition outcome_at :: "world \<Rightarrow> string \<Rightarrow> nat \<Rightarrow> search_outcome" where
  "outcome_at w tp k = tavily_post w k (nth_query tp k)"

definition run_at :: "world \<Rightarrow> string \<Rightarrow> nat \<Rightarrow> exn + string" where
  "run_at w tp k = TavilySearchTool_run (outcome_at w tp k) (nth_query tp k)"

section \<open>Text\<close>

lemma is_prefix_append: "is_prefix sub xs \<Longrightarrow> is_prefix sub (xs @ ys)"
  by (induction sub xs rule: is_prefix.induct) auto



lemma contains_nil: "contains [] s"
  by (cases s) auto

lemma contains_append_left: "contains sub xs \<Longrightarrow> contains sub (xs @ ys)"
proof (induction xs)
  case Nil
  then show ?case by (simp add: contains_nil)
next
  case (Cons x xs)
  then show ?case using is_prefix_append [of sub "x # xs" ys] by auto
qed

lemma contains_append_right: "contains sub ys \<Longrightarrow> contains sub (xs @ ys)"
  by (induction xs) auto



lemma show_nat_digits [simp]:
  "show_nat 1 = ''1''" "show_nat 2 = ''2''" "show_nat 3 = ''3''" "show_nat 4 = ''4''"
  "show_nat (Suc 0) = ''1''"
  by (simp_all add: show_nat.simps digit_char_def)

lemma fallback_headers:
  "contains ''Key Questions'' (fallback_plan tp)"
  "contains ''Search Strategy'' (fallback_plan tp)"
  "contains ''Source Prioritization'' (fallback_plan tp)"
  "contains ''Verification Methods'' (fallback_plan tp)"
  unfolding fallback_plan_def
  by (rule contains_append_right, rule contains_append_right, simp add: fallback_sections_def)+

lemma fallback_nonempty: "fallback_plan tp \<noteq> []"
  by (simp add: fallback_plan_def)

section \<open>The completion client\<close>

lemma extract_content_body [simp]: "extract_content (completion_body v) = Inr v"
  by (simp add: extract_content_def completion_body_def)

lemma logged_simps [simp]: "fst (logged evs r) = fst r" "snd (logged evs r) = evs @ snd r"
  by (simp_all add: logged_def)

lemma posts_backoff [simp]: "filter is_post (backoff cl a) = []"
  by (simp add: backoff_def)

lemma example_llm [simp]:
  "max_retries (llm example_graph) = 3" "timeout (llm example_graph) = 180"
  "base_url (llm example_graph) = ''http://127.0.0.1:1234/v1''"
  by (simp_all add: example_graph_def ResearchGraph_init_def)

text \<open>One request per attempt of the loop, so at most \<^verbatim>\<open>max_retries\<close> requests per call.\<close>

lemma call_loop_posts: "length (filter is_post (snd (call_loop cl post as))) \<le> length as"
proof (induction as)
  case Nil
  show ?case by simp
next
  case (Cons a as)
  then show ?case
    by (cases "post a") (auto split: sum.splits)
qed

lemma call_attempts_bounded:
  "int (length (filter is_post (snd (LMStudioLLM_call cl post prompt)))) \<le> max 0 (max_retries cl)"
  using call_loop_posts [of cl "post prompt" "[0 ..< nat (max_retries cl)]"]
  by (simp add: LMStudioLLM_call_def)

text \<open>
  When every attempt ends in a handled exception (timeout, connection failure, other
  request failure), the client sleeps \<open>2 ^ attempt\<close> after each attempt but the last.
\<close>

lemma call_loop_exceptions_trace:
  assumes "\<forall>k. failed_by_exception (post k)"
  shows "snd (call_loop cl post [k ..< nat (max_retries cl)]) = backoff_trace [k ..< nat (max_retries cl)]"
proof (induction "nat (max_retries cl) - k" arbitrary: k)
  case 0
  then show ?case by simp
next
  case (Suc d)
  then have lt: "k < nat (max_retries cl)" by simp
  have ih: "snd (call_loop cl post [Suc k ..< nat (max_retries cl)]) = backoff_trace [Suc k ..< nat (max_retries cl)]"
    using Suc by simp
  have f: "failed_by_exception (post k)" using assms by simp
  show ?case
  proof (cases "Suc k < nat (max_retries cl)")
    case True
    then have "[k ..< nat (max_retries cl)] = k # Suc k # [Suc (Suc k) ..< nat (max_retries cl)]"
      by (simp add: upt_conv_Cons)
    moreover have "[Suc k ..< nat (max_retries cl)] = Suc k # [Suc (Suc k) ..< nat (max_retries cl)]"
      using True by (simp add: upt_conv_Cons)
    moreover have "int k \<noteq> max_retries cl - 1" "int k < max_retries cl - 1" using True by auto
    ultimately show ?thesis using ih f
      by (cases "post k") (auto simp: failed_by_exception_def backoff_def)
  next
    case False
    with lt have e: "nat (max_retries cl) = Suc k" by simp
    then have "int k = max_retries cl - 1" by auto
    then show ?thesis using f e
      by (cases "post k") (auto simp: failed_by_exception_def)
  qed
qed

lemma timeout_retries_sleep:
  "snd (LMStudioLLM_call (llm example_graph)
          (\<lambda>prompt k. if k < 2 then Timeout
                       else Response 200 '''' (Inr (completion_body (JStr ''a plan''))))
          prompt)
   = [Post 0, Sleep 1, Post 1, Sleep 2, Post 2]"
  by (simp add: LMStudioLLM_call_def upt_rec backoff_def)

text \<open>
  C2. The client makes at most \<^verbatim>\<open>max_retries\<close> attempts and sleeps \<open>2 ^ attempt\<close>
  between consecutive attempts, whatever made the attempt fail. The code does not sleep
  after a failure status: with three tries and the status 500 on the first two requests,
  the three requests follow each other with no sleep between them (after two timeouts the
  trace is \<open>Post 0, Sleep 1, Post 1, Sleep 2, Post 2\<close>, see \<open>timeout_retries_sleep\<close>).
\<close>

theorem http_failure_retries_without_sleep:
  "snd (LMStudioLLM_call (llm example_graph)
          (\<lambda>prompt k. if k < 2 then Response 500 ''busy'' (Inl ''not JSON'')
                       else Response 200 '''' (Inr (completion_body (JStr ''a plan''))))
          prompt)
   = [Post 0, Post 1, Post 2]"
  by (simp add: LMStudioLLM_call_def upt_rec)

lemma null_content_returned:
  "fst (LMStudioLLM_call (llm example_graph)
          (\<lambda>prompt k. Response 200 '''' (Inr (completion_body JNull))) prompt)
   = Inr JNull"
  by (simp add: LMStudioLLM_call_def upt_rec)

text \<open>
  C3. The client never raises and always returns a string, also on a 200 response whose
  body has not the expected shape. The code lets the exception of the subscripting
  escape: on the body \<^verbatim>\<open>{}\<close> the call raises \<^verbatim>\<open>KeyError('choices')\<close>, for every prompt.
\<close>

theorem malformed_body_raises:
  "fst (LMStudioLLM_call (llm example_graph)
          (\<lambda>prompt k. Response 200 ''{}'' (Inr (JObj []))) prompt)
   = Inl (KeyError ''choices'')"
  by (simp add: LMStudioLLM_call_def upt_rec extract_content_def)

text \<open>The call depends on the endpoint only through the outcomes of the attempts it makes.\<close>

lemma call_loop_cong:
  "\<forall>k \<in> set as. post1 k = post2 k \<Longrightarrow> call_loop cl post1 as = call_loop cl post2 as"
  by (induction as) (auto split: http_outcome.splits sum.splits)

text \<open>When every attempt fails, the call returns a text, and the text is not empty.\<close>

lemma failed_attempts_text:
  "\<forall>k \<in> set as. attempt_failed (post k) \<Longrightarrow> \<exists>t. fst (call_loop cl post as) = Inr (JStr t) \<and> t \<noteq> []"
proof (induction as)
  case Nil
  show ?case by simp
next
  case (Cons a as)
  then show ?case
    by (cases "post a") (auto simp: attempt_failed_def split: sum.splits)
qed

lemma timeouts_marked:
  "\<forall>k. post k = Timeout \<Longrightarrow> carries_error_marker (fst (call_loop cl post as))"
  by (induction as) (auto simp: carries_error_marker_def)

section \<open>The planning stage\<close>

lemma planner_fields_ok:
  "planner_try cl w (topic s) = Inr plan \<Longrightarrow>
     research_planner_node cl w s =
       s\<lparr>research_plan := plan,
         messages := messages s @ [AIMessage (''Research plan created for: '' @ topic s)],
         next_step := ''web_searcher''\<rparr>"
  by (simp add: research_planner_node_def)

lemma planner_fields_exn:
  "planner_try cl w (topic s) = Inl e \<Longrightarrow>
     research_planner_node cl w s =
       s\<lparr>error := Some (''Error in research planning: '' @ exc_str w e),
         research_plan := ''Basic research plan for: '' @ topic s @ '' (Error occurred in detailed planning)''\<rparr>"
  by (simp add: research_planner_node_def)

lemma planner_topic [simp]: "topic (research_planner_node cl w s) = topic s"
  by (simp add: research_planner_node_def split: sum.splits)

lemma LLM_call_text:
  "LLM_call cl post prompt = Inr generated \<longleftrightarrow>
     fst (LMStudioLLM_call cl post prompt) = Inr (JStr generated)"
  by (auto simp: LLM_call_def split: sum.splits json.splits)

lemma planner_try_ok: "planner_try (llm example_graph) world_ok tp = Inr ''a plan''"
  by (simp add: planner_try_def LLM_call_def LMStudioLLM_call_def upt_rec world_ok_def
      checked_plan_def lower_def)

lemma planner_try_malformed: "planner_try (llm example_graph) world_malformed tp = Inl (KeyError ''choices'')"
  by (simp add: planner_try_def LLM_call_def LMStudioLLM_call_def upt_rec world_malformed_def
      world_ok_def extract_content_def)

text \<open>
  A content that is no text never reaches the test of the stage: the call of the model
  raises, and the stage takes its handler.
\<close>

lemma planner_try_list: "planner_try (llm example_graph) world_list tp = Inl ValidationError"
  by (simp add: planner_try_def LLM_call_def LMStudioLLM_call_def upt_rec world_list_def world_ok_def)

lemma marker_fallback:
  assumes "carries_error_marker (fst (LMStudioLLM_call cl (llm_post w) (planner_prompt (topic s))))"
  shows "research_plan (research_planner_node cl w s) = fallback_plan (topic s)"
proof -
  from assms obtain t where
      r: "fst (LMStudioLLM_call cl (llm_post w) (planner_prompt (topic s))) = Inr (JStr t)"
      and m: "contains ''Error:'' t \<or> contains ''timed out'' (lower t)"
    by (auto simp: carries_error_marker_def split: sum.splits json.splits)
  then have "planner_try cl w (topic s) = Inr (fallback_plan (topic s))"
    by (auto simp: planner_try_def LLM_call_def checked_plan_def)
  then show ?thesis by (simp add: planner_fields_ok)
qed

text \<open>
  C7. Whenever the text that the completion client returns carries an error marker
  (\<^verbatim>\<open>Error:\<close>, or \<^verbatim>\<open>timed out\<close> in any case), the planning stage stores the fallback
  plan of the topic, which is not empty and contains the four section headers; this is so
  in particular when every attempt of the client times out.
\<close>

theorem planner_fallback_on_marker:
  "(carries_error_marker (fst (LMStudioLLM_call cl (llm_post w) (planner_prompt (topic s))))
      \<longrightarrow> research_plan (research_planner_node cl w s) = fallback_plan (topic s))
   \<and> ((\<forall>k. llm_post w (planner_prompt (topic s)) k = Timeout)
      \<longrightarrow> research_plan (research_planner_node cl w s) = fallback_plan (topic s))
   \<and> fallback_plan (topic s) \<noteq> []
   \<and> contains ''Key Questions'' (fallback_plan (topic s))
   \<and> contains ''Search Strategy'' (fallback_plan (topic s))
   \<and> contains ''Source Prioritization'' (fallback_plan (topic s))
   \<and> contains ''Verification Methods'' (fallback_plan (topic s))"
proof -
  have "carries_error_marker (fst (LMStudioLLM_call cl (llm_post w) (planner_prompt (topic s))))"
    if "\<forall>k. llm_post w (planner_prompt (topic s)) k = Timeout"
    unfolding LMStudioLLM_call_def using that by (rule timeouts_marked)
  then show ?thesis
    using marker_fallback [of cl w s] fallback_headers [of "topic s"] fallback_nonempty [of "topic s"]
    by blast
qed

theorem planner_fallback_on_marker_witness:
  "carries_error_marker (fst (LMStudioLLM_call (llm example_graph) (llm_post world_timeouts)
       (planner_prompt (topic (initial_state ''quantum error correction'')))))
   \<and> (\<forall>k. llm_post world_timeouts (planner_prompt (topic (initial_state ''quantum error correction''))) k = Timeout)
   \<and> research_plan (research_planner_node (llm example_graph) world_timeouts
         (initial_state ''quantum error correction'')) = fallback_plan ''quantum error correction''
   \<and> contains ''Key Questions'' (research_plan (research_planner_node (llm example_graph) world_timeouts
         (initial_state ''quantum error correction'')))"
proof -
  have t: "topic (initial_state ''quantum error correction'') = ''quantum error correction''"
    by (simp add: initial_state_def)
  have a: "\<forall>k. llm_post world_timeouts (planner_prompt (topic (initial_state ''quantum error correction''))) k = Timeout"
    by (simp add: world_timeouts_def)
  have b: "carries_error_marker (fst (LMStudioLLM_call (llm example_graph) (llm_post world_timeouts)
       (planner_prompt (topic (initial_state ''quantum error correction'')))))"
    by (simp add: LMStudioLLM_call_def upt_rec world_timeouts_def carries_error_marker_def backoff_def)
  show ?thesis
    using a b planner_fallback_on_marker [of "llm example_graph" world_timeouts
        "initial_state ''quantum error correction''"]
    by (simp add: t)
qed

lemma checked_plan_nonempty: "generated \<noteq> [] \<Longrightarrow> checked_plan tp generated \<noteq> []"
  by (simp add: checked_plan_def fallback_nonempty)

lemma planner_plan_nonempty:
  assumes "fst (LMStudioLLM_call cl (llm_post w) (planner_prompt (topic s))) \<noteq> Inr (JStr [])"
  shows "research_plan (research_planner_node cl w s) \<noteq> []"
proof (cases "planner_try cl w (topic s)")
  case (Inl e)
  then show ?thesis by (simp add: planner_fields_exn)
next
  case (Inr plan)
  then obtain generated where
      v: "LLM_call cl (llm_post w) (planner_prompt (topic s)) = Inr generated"
      and c: "plan = checked_plan (topic s) generated"
    by (auto simp: planner_try_def split: sum.splits)
  from v assms have "generated \<noteq> []" by (auto simp: LLM_call_text)
  with c have "plan \<noteq> []" by (simp add: checked_plan_nonempty)
  with Inr show ?thesis by (simp add: planner_fields_ok)
qed

text \<open>
  When every attempt ends in a failure status, a timeout or a connection failure, the
  text that the client returns carries the marker, and the stage stores the fallback plan
  and records no error.
\<close>

lemma marked_failures_marked:
  "\<forall>k. marked_failure (post k) \<Longrightarrow> carries_error_marker (fst (call_loop cl post as))"
proof (induction as)
  case Nil
  show ?case by (simp add: carries_error_marker_def)
next
  case (Cons a as)
  then have "marked_failure (post a)" by simp
  with Cons show ?case
    by (cases "post a") (auto simp: carries_error_marker_def marked_failure_def)
qed

lemma marked_failures_planner:
  assumes "\<forall>k. marked_failure (llm_post w (planner_prompt tp) k)"
  shows "planner_try cl w tp = Inr (fallback_plan tp)"
proof -
  have "carries_error_marker (fst (LMStudioLLM_call cl (llm_post w) (planner_prompt tp)))"
    unfolding LMStudioLLM_call_def using assms by (rule marked_failures_marked)
  then show ?thesis
    by (auto simp: carries_error_marker_def planner_try_def LLM_call_def checked_plan_def
        split: sum.splits json.splits)
qed

section \<open>The searching stage\<close>

lemma search_loop_sections:
  "fst (search_loop w i qs (rs, n, iss)) =
     rs @ map (\<lambda>(k, q). section_text (exc_str w) k q (tavily_post w k q)) (enumerate i qs)"
  by (induction qs arbitrary: i rs n iss) (auto simp: section_text_def split: sum.splits)

lemma search_loop_issued: "snd (snd (search_loop w i qs (rs, n, iss))) = iss @ qs"
  by (induction qs arbitrary: i rs n iss) (auto split: sum.splits)

lemma search_loop_cong:
  "\<forall>(k, q) \<in> set (enumerate i qs). tavily_post w1 k q = tavily_post w2 k q \<Longrightarrow>
   exc_str w1 = exc_str w2 \<Longrightarrow>
   search_loop w1 i qs acc = search_loop w2 i qs acc"
proof (induction qs arbitrary: i acc)
  case Nil
  show ?case by simp
next
  case (Cons q qs)
  obtain rs n iss where acc: "acc = (rs, n, iss)" by (cases acc) auto
  from Cons.prems have h: "tavily_post w1 i q = tavily_post w2 i q"
    and r: "\<forall>(k, q) \<in> set (enumerate (Suc i) qs). tavily_post w1 k q = tavily_post w2 k q"
    by auto
  show ?case
    unfolding acc using h Cons.IH [OF r Cons.prems(2)] Cons.prems(2)
    by (simp split: sum.splits)
qed

lemma searcher_fields [simp]:
  "topic (web_searcher_node w s) = topic s"
  "research_plan (web_searcher_node w s) = research_plan s"
  "error (web_searcher_node w s) = error s"
  "next_step (web_searcher_node w s) = ''complete''"
  "length (messages (web_searcher_node w s)) = Suc (length (messages s))"
  "search_results (web_searcher_node w s) = join_nl (fst (search_loop w 0 (search_queries (topic s)) ([], 0, [])))"
  by (simp_all add: web_searcher_node_def web_searcher_run_def split: prod.splits)

lemma queries_length: "length (search_queries tp) = 4"
  by (simp add: search_queries_def)

lemma nth_query_simps [simp]:
  "nth_query tp 0 = tp"
  "nth_query tp 1 = tp @ '' facts evidence 2024''"
  "nth_query tp (Suc 0) = tp @ '' facts evidence 2024''"
  "nth_query tp 2 = tp @ '' expert analysis''"
  "nth_query tp 3 = tp @ '' recent research findings''"
  by (simp_all add: nth_query_def search_queries_def numeral_2_eq_2 numeral_3_eq_3)

lemma upt_4: "[0 ..< 4] = [0, 1, 2, 3::nat]"
  by (simp add: upt_rec)

lemma enumerate_4: "enumerate 0 [a, b, c, d] = [(0, a), (1, b), (2, c), (3, d)]"
  by (simp add: numeral_2_eq_2 numeral_3_eq_3)

lemma searcher_results:
  "search_results (web_searcher_node w s) =
     join_nl (map (\<lambda>k. section_text (exc_str w) k (nth_query (topic s) k) (outcome_at w (topic s) k)) [0 ..< 4])"
proof -
  have "search_results (web_searcher_node w s) =
          join_nl (map (\<lambda>(k, q). section_text (exc_str w) k q (tavily_post w k q))
                     (enumerate 0 (search_queries (topic s))))"
    using search_loop_sections [of w 0 "search_queries (topic s)" "[]" 0 "[]"] by simp
  also have "enumerate 0 (search_queries (topic s)) = map (\<lambda>k. (k, nth_query (topic s) k)) [0 ..< 4]"
    unfolding upt_4 by (simp add: search_queries_def enumerate_4 del: enumerate_simps)
  finally show ?thesis by (simp add: outcome_at_def comp_def)
qed

lemma section_text_ok:
  "TavilySearchTool_run outcome q = Inr r \<Longrightarrow> section_text f i q outcome = query_label i q @ nl @ r @ nl"
  by (simp add: section_text_def query_label_def)

lemma section_nonempty: "section_text f i q outcome \<noteq> []"
  by (simp add: section_text_def split: sum.splits)


lemma provider_failed_text:
  assumes "provider_failed outcome"
  shows "\<not> isl (TavilySearchTool_run outcome q) \<and> contains ''Error:'' (projr (TavilySearchTool_run outcome q))"
proof (cases outcome)
  case (SearchResponse status_code t body)
  show ?thesis
  proof (cases "status_code = 200")
    case True
    with assms SearchResponse obtain e where "body = Inl e"
      by (cases body) (auto simp: provider_failed_def)
    with True SearchResponse show ?thesis by (simp add: TavilySearchTool_run_def)
  next
    case False
    with SearchResponse show ?thesis by (simp add: TavilySearchTool_run_def)
  qed
next
  case (SearchRequestException e)
  then show ?thesis by (simp add: TavilySearchTool_run_def)
qed

lemma section_of_failure:
  assumes "provider_failed (outcome_at w tp k)"
  shows "section_text f k (nth_query tp k) (outcome_at w tp k)
           = query_label k (nth_query tp k) @ nl @ projr (run_at w tp k) @ nl"
proof -
  from provider_failed_text [OF assms, of "nth_query tp k"]
  obtain r where "TavilySearchTool_run (outcome_at w tp k) (nth_query tp k) = Inr r"
    by (cases "TavilySearchTool_run (outcome_at w tp k) (nth_query tp k)") auto
  then show ?thesis by (simp add: section_text_ok run_at_def)
qed

lemma section_of_success:
  assumes "\<not> isl (run_at w tp k)"
  shows "section_text f k (nth_query tp k) (outcome_at w tp k)
           = query_label k (nth_query tp k) @ nl @ projr (run_at w tp k) @ nl"
proof -
  from assms obtain r where "TavilySearchTool_run (outcome_at w tp k) (nth_query tp k) = Inr r"
    by (cases "TavilySearchTool_run (outcome_at w tp k) (nth_query tp k)") (auto simp: run_at_def)
  then show ?thesis by (simp add: section_text_ok run_at_def)
qed



lemma formatted_not_error: "formatted_results r \<Longrightarrow> \<not> error_text r"
  by (cases r) (auto simp: formatted_results_def error_text_def)


lemma failed_text:
  assumes "provider_failed outcome"
  shows "\<exists>r. TavilySearchTool_run outcome q = Inr r \<and> error_text r \<and> \<not> formatted_results r
             \<and> contains ''Error:'' r"
proof -
  from provider_failed_text [OF assms, of q] obtain r where
      r: "TavilySearchTool_run outcome q = Inr r" and c: "contains ''Error:'' r"
    by (cases "TavilySearchTool_run outcome q") auto
  have "error_text r"
  proof (cases outcome)
    case (SearchResponse status_code t body)
    show ?thesis
    proof (cases "status_code = 200")
      case True
      with assms SearchResponse obtain e where "body = Inl e"
        by (cases body) (auto simp: provider_failed_def)
      with True SearchResponse r show ?thesis
        by (auto simp: TavilySearchTool_run_def error_text_def)
    next
      case False
      with SearchResponse r show ?thesis
        by (auto simp: TavilySearchTool_run_def error_text_def)
    qed
  next
    case (SearchRequestException e)
    with r show ?thesis by (auto simp: TavilySearchTool_run_def error_text_def)
  qed
  with r c formatted_not_error [of r] show ?thesis by blast
qed




text \<open>
  C6. For every topic \<open>X\<close> and whatever the provider does, the searching stage hands
  exactly four queries to the search tool, in this order: \<open>X\<close>,
  \<open>X facts evidence 2024\<close>, \<open>X expert analysis\<close>, \<open>X recent research findings\<close>; the
  text it stores is made of what the provider answered to these four requests; and in a
  run the stage gets the topic of the request.
\<close>

theorem searcher_issues_four_queries:
  "issued_queries w s =
     [topic s, topic s @ '' facts evidence 2024'', topic s @ '' expert analysis'',
      topic s @ '' recent research findings'']
   \<and> fst (web_searcher_run w s) = Inr (web_searcher_node w s)
   \<and> search_results (web_searcher_node w s) =
       join_nl
        [section_text (exc_str w) 0 (topic s) (tavily_post w 0 (topic s)),
         section_text (exc_str w) 1 (topic s @ '' facts evidence 2024'')
           (tavily_post w 1 (topic s @ '' facts evidence 2024'')),
         section_text (exc_str w) 2 (topic s @ '' expert analysis'')
           (tavily_post w 2 (topic s @ '' expert analysis'')),
         section_text (exc_str w) 3 (topic s @ '' recent research findings'')
           (tavily_post w 3 (topic s @ '' recent research findings''))]
   \<and> topic (after_planner g w (initial_state tp)) = tp"
proof (intro conjI)
  show "issued_queries w s =
     [topic s, topic s @ '' facts evidence 2024'', topic s @ '' expert analysis'',
      topic s @ '' recent research findings'']"
    using search_loop_issued [of w 0 "search_queries (topic s)" "[]" 0 "[]"]
    by (simp add: issued_queries_def web_searcher_run_def case_prod_beta)
       (simp add: search_queries_def)
  show "fst (web_searcher_run w s) = Inr (web_searcher_node w s)"
    by (simp add: web_searcher_node_def web_searcher_run_def case_prod_beta)
  show "search_results (web_searcher_node w s) =
       join_nl
        [section_text (exc_str w) 0 (topic s) (tavily_post w 0 (topic s)),
         section_text (exc_str w) 1 (topic s @ '' facts evidence 2024'')
           (tavily_post w 1 (topic s @ '' facts evidence 2024'')),
         section_text (exc_str w) 2 (topic s @ '' expert analysis'')
           (tavily_post w 2 (topic s @ '' expert analysis'')),
         section_text (exc_str w) 3 (topic s @ '' recent research findings'')
           (tavily_post w 3 (topic s @ '' recent research findings''))]"
    unfolding searcher_results upt_4 by (simp add: outcome_at_def)
  show "topic (after_planner g w (initial_state tp)) = tp"
    by (simp add: after_planner_def apply_node_def Let_def graph_input_def initial_state_def)
qed

section \<open>The run\<close>

lemma graph_input_id [simp]: "graph_input s = s"
  by (simp add: graph_input_def)

lemma apply_node_fields [simp]:
  "topic (apply_node w node s) = topic (node s)"
  "research_plan (apply_node w node s) = research_plan (node s)"
  "search_results (apply_node w node s) = search_results (node s)"
  "error (apply_node w node s) = error (node s)"
  "next_step (apply_node w node s) = next_step (node s)"
  "messages (apply_node w node s) = (if shares_state w then messages (node s) else messages s) @ messages (node s)"
  by (simp_all add: apply_node_def Let_def)

lemma after_planner_fields [simp]:
  "topic (after_planner g w s) = topic s"
  "error (after_planner g w s) = error (research_planner_node (llm g) w s)"
  "next_step (after_planner g w s) = next_step (research_planner_node (llm g) w s)"
  by (simp_all add: after_planner_def)

lemma plan_of_run [simp]:
  "research_plan (graph_invoke g w s) = research_plan (research_planner_node (llm g) w s)"
  "error (graph_invoke g w s) = error (research_planner_node (llm g) w s)"
  "next_step (graph_invoke g w s) = ''complete''"
  "topic (graph_invoke g w s) = topic s"
  by (simp_all add: graph_invoke_def after_planner_def)

lemma results_of_run:
  "search_results (graph_invoke g w s) =
     join_nl (map (\<lambda>(k, q). section_text (exc_str w) k q (tavily_post w k q))
                (enumerate 0 (search_queries (topic s))))"
  using search_loop_sections [of w 0 "search_queries (topic s)" "[]" 0 "[]"]
  by (simp add: graph_invoke_def)

lemma results_nonempty: "search_results (graph_invoke g w s) \<noteq> []"
  by (simp add: results_of_run search_queries_def section_nonempty)

text \<open>
  Run one after the other on the initial state, without the runtime between them, the two
  stages leave three messages.
\<close>

lemma stages_in_sequence_three_messages:
  assumes "planner_try cl w tp = Inr plan"
  shows "length (messages (web_searcher_node w (research_planner_node cl w (initial_state tp)))) = 3"
proof -
  have "topic (initial_state tp) = tp" by (simp add: initial_state_def)
  with assms show ?thesis by (simp add: planner_fields_ok) (simp add: initial_state_def)
qed

text \<open>
  Under the runtime the number of messages after a run is 10 or 7 when the planning stage
  raised nothing, and 6 or 5 when it did, never 3.
\<close>

lemma run_messages_length:
  "length (messages (graph_invoke g w (initial_state tp))) =
     (case planner_try (llm g) w tp of
        Inr plan \<Rightarrow> if shares_state w then 10 else 7
      | Inl e \<Rightarrow> if shares_state w then 6 else 5)"
proof -
  have t: "topic (initial_state tp) = tp" and m: "length (messages (initial_state tp)) = 1"
    by (simp_all add: initial_state_def)
  show ?thesis
  proof (cases "planner_try (llm g) w tp")
    case (Inl e)
    then show ?thesis
      by (simp add: graph_invoke_def after_planner_def planner_fields_exn t m)
  next
    case (Inr plan)
    then show ?thesis
      by (simp add: graph_invoke_def after_planner_def planner_fields_ok t m)
  qed
qed

text \<open>
  C4. After an exception-free run the final state has exactly three messages: the human
  entry and one assistant entry per stage, in the order of execution. The code returns
  from each stage the whole list it appended to, and the runtime adds that list to the
  one it holds (\<^verbatim>\<open>operator.add\<close>): the final state of an exception-free run on the
  topic \<open>X\<close> has ten messages.
\<close>

theorem run_messages_duplicated:
  "messages (graph_invoke example_graph world_ok (initial_state ''X'')) =
     [HumanMessage ''Research topic: X'',
      AIMessage ''Research plan created for: X'',
      HumanMessage ''Research topic: X'',
      AIMessage ''Research plan created for: X'',
      AIMessage ''Completed 4 searches (1 successful) for: X'',
      HumanMessage ''Research topic: X'',
      AIMessage ''Research plan created for: X'',
      HumanMessage ''Research topic: X'',
      AIMessage ''Research plan created for: X'',
      AIMessage ''Completed 4 searches (1 successful) for: X'']"
proof -
  have t: "topic (initial_state ''X'') = ''X''" by (simp add: initial_state_def)
  have p: "research_planner_node (llm example_graph) world_ok (initial_state ''X'') =
        (initial_state ''X'')\<lparr>research_plan := ''a plan'',
           messages := [HumanMessage ''Research topic: X'', AIMessage ''Research plan created for: X''],
           next_step := ''web_searcher''\<rparr>"
    using planner_fields_ok [of "llm example_graph" world_ok "initial_state ''X''" "''a plan''"]
    by (simp add: t planner_try_ok) (simp add: initial_state_def)
  have s: "snd (search_loop world_ok 0 (search_queries ''X'') ([], 0, [])) =
             (1, [''X'', ''X facts evidence 2024'', ''X expert analysis'', ''X recent research findings''])"
    by (simp add: search_queries_def world_ok_def TavilySearchTool_run_def three_results_def
        format_source_def content_snippet_def search_header_def get_str_def show_int_def
        show_nat.simps digit_char_def nl_def dq_def)
  have m: "messages (web_searcher_node world_ok st) =
             messages st @ [AIMessage ''Completed 4 searches (1 successful) for: X'']"
    if "topic st = ''X''" for st
    using s that by (simp add: web_searcher_node_def web_searcher_run_def queries_length case_prod_beta)
  have sh: "shares_state world_ok" by (simp add: world_ok_def)
  show ?thesis
    by (simp add: graph_invoke_def after_planner_def p m sh t)
qed

lemma searcher_keeps_error: "error (apply_node w (web_searcher_node w) s) = error s"
  by simp

text \<open>
  C8. When the planning stage has recorded an error, the state after the searching stage
  still holds it: the final state of the run and the result of \<^verbatim>\<open>research_topic\<close> carry
  the same non-null error.
\<close>

theorem error_not_cleared:
  "error (after_planner g w (initial_state tp)) = Some msg \<Longrightarrow>
     error (graph_invoke g w (initial_state tp)) = Some msg
     \<and> result_error (research_topic g w tp) = Some msg"
  by (simp add: research_topic_def invoke_outcome_def)

theorem error_not_cleared_witness:
  "error (after_planner example_graph world_malformed (initial_state ''X''))
       = Some (''Error in research planning: '' @ sq @ ''choices'' @ sq)
   \<and> error (graph_invoke example_graph world_malformed (initial_state ''X''))
       = Some (''Error in research planning: '' @ sq @ ''choices'' @ sq)
   \<and> result_error (research_topic example_graph world_malformed ''X'')
       = Some (''Error in research planning: '' @ sq @ ''choices'' @ sq)"
proof -
  have t: "topic (initial_state ''X'') = ''X''" "error (initial_state ''X'') = None"
    by (simp_all add: initial_state_def)
  have x: "exc_str world_malformed = python_str" by (simp add: world_malformed_def world_ok_def)
  have h: "error (after_planner example_graph world_malformed (initial_state ''X''))
       = Some (''Error in research planning: '' @ sq @ ''choices'' @ sq)"
    using planner_fields_exn [of "llm example_graph" world_malformed "initial_state ''X''" "KeyError ''choices''"]
    by (simp add: t planner_try_malformed x python_str_def)
  from h error_not_cleared [OF h] show ?thesis by simp
qed

text \<open>
  The claim C10 as first stated ends with: after such a run \<^verbatim>\<open>next_step\<close> still names
  the planning stage. It does not: the searching stage runs all the same and writes
  \<^verbatim>\<open>complete\<close>.
\<close>

theorem planner_exception_run_ends_complete:
  "planner_try (llm example_graph) world_malformed ''X'' = Inl (KeyError ''choices'')
   \<and> next_step (graph_invoke example_graph world_malformed (initial_state ''X'')) \<noteq> ''research_planner''"
  by (simp add: planner_try_malformed)

text \<open>
  C10, amended. When the planning stage catches an exception, it writes the error and the
  minimal plan and nothing else: it appends no message and leaves \<^verbatim>\<open>next_step\<close> as
  it was, so that after the planning stage \<^verbatim>\<open>next_step\<close> still names the planning
  stage. After the whole run \<^verbatim>\<open>next_step\<close> is \<^verbatim>\<open>complete\<close>, written by the searching
  stage, and the messages are fewer than after a run on the same topic whose planning
  stage raised nothing.
\<close>

theorem planner_exception_frame:
  assumes "planner_try (llm g) w tp = Inl e"
    and "planner_try (llm g) w' tp = Inr plan"
    and "shares_state w' = shares_state w"
  shows "research_planner_node (llm g) w (initial_state tp) =
           (initial_state tp)\<lparr>error := Some (''Error in research planning: '' @ exc_str w e),
              research_plan := ''Basic research plan for: '' @ tp @ '' (Error occurred in detailed planning)''\<rparr>
         \<and> messages (research_planner_node (llm g) w (initial_state tp)) = messages (initial_state tp)
         \<and> next_step (after_planner g w (initial_state tp)) = ''research_planner''
         \<and> next_step (graph_invoke g w (initial_state tp)) = ''complete''
         \<and> length (messages (graph_invoke g w (initial_state tp)))
             < length (messages (graph_invoke g w' (initial_state tp)))"
proof -
  have t: "topic (initial_state tp) = tp" by (simp add: initial_state_def)
  have n: "research_planner_node (llm g) w (initial_state tp) =
           (initial_state tp)\<lparr>error := Some (''Error in research planning: '' @ exc_str w e),
              research_plan := ''Basic research plan for: '' @ tp @ '' (Error occurred in detailed planning)''\<rparr>"
    using planner_fields_exn [of "llm g" w "initial_state tp" e] assms(1) by (simp add: t)
  have s: "next_step (initial_state tp) = ''research_planner''" by (simp add: initial_state_def)
  have l: "length (messages (graph_invoke g w (initial_state tp)))
             < length (messages (graph_invoke g w' (initial_state tp)))"
    using assms by (simp add: run_messages_length)
  from n s l show ?thesis by simp
qed

theorem planner_exception_frame_witness:
  "planner_try (llm example_graph) world_malformed ''X'' = Inl (KeyError ''choices'')
   \<and> planner_try (llm example_graph) world_ok ''X'' = Inr ''a plan''
   \<and> shares_state world_ok = shares_state world_malformed
   \<and> messages (research_planner_node (llm example_graph) world_malformed (initial_state ''X''))
        = messages (initial_state ''X'')
   \<and> next_step (after_planner example_graph world_malformed (initial_state ''X'')) = ''research_planner''
   \<and> next_step (graph_invoke example_graph world_malformed (initial_state ''X'')) = ''complete''
   \<and> length (messages (graph_invoke example_graph world_malformed (initial_state ''X'')))
        < length (messages (graph_invoke example_graph world_ok (initial_state ''X'')))"
proof -
  have a: "planner_try (llm example_graph) world_malformed ''X'' = Inl (KeyError ''choices'')"
    by (rule planner_try_malformed)
  have b: "planner_try (llm example_graph) world_ok ''X'' = Inr ''a plan''"
    by (rule planner_try_ok)
  have c: "shares_state world_ok = shares_state world_malformed"
    by (simp add: world_malformed_def)
  from a b c planner_exception_frame [OF a b c] show ?thesis by blast
qed

text \<open>
  The claim C1 as first stated gives a non-empty plan for every topic, and has every
  failure reported in the error field. When the completion endpoint answers 200 with an
  empty content, the empty text carries no error marker and becomes the plan. When both
  services fail on every call, the error field is null.
\<close>

theorem empty_plan_and_unreported_failure:
  "result_research_plan (research_topic example_graph world_silent ''X'') = []
   \<and> (\<forall>k. llm_post world_down (planner_prompt ''X'') k = ConnectionError)
   \<and> (\<forall>k query. tavily_post world_down k query = SearchRequestException ''unreachable'')
   \<and> result_error (research_topic example_graph world_down ''X'') = None"
proof -
  have t: "topic (initial_state ''X'') = ''X''" "error (initial_state ''X'') = None"
    by (simp_all add: initial_state_def)
  have a: "planner_try (llm example_graph) world_silent ''X'' = Inr []"
    by (simp add: planner_try_def LLM_call_def LMStudioLLM_call_def upt_rec world_silent_def
        world_ok_def checked_plan_def lower_def)
  have b: "\<forall>k. marked_failure (llm_post world_down (planner_prompt ''X'') k)"
    by (simp add: world_down_def marked_failure_def)
  have "result_research_plan (research_topic example_graph world_silent ''X'') = []"
    using planner_fields_ok [of "llm example_graph" world_silent "initial_state ''X''" "[]"] a
    by (simp add: research_topic_def invoke_outcome_def t)
  moreover have "result_error (research_topic example_graph world_down ''X'') = None"
    using planner_fields_ok [of "llm example_graph" world_down "initial_state ''X''" "fallback_plan ''X''"]
      marked_failures_planner [OF b, of "llm example_graph"]
    by (simp add: research_topic_def invoke_outcome_def t)
  ultimately show ?thesis by (simp add: world_down_def)
qed

lemma planner_error_field:
  "error (research_planner_node cl w (initial_state tp)) =
     (case planner_try cl w tp of
        Inl e \<Rightarrow> Some (''Error in research planning: '' @ exc_str w e)
      | Inr plan \<Rightarrow> None)"
proof -
  have t: "topic (initial_state tp) = tp" "error (initial_state tp) = None"
    by (simp_all add: initial_state_def)
  show ?thesis
  proof (cases "planner_try cl w tp")
    case (Inl e)
    then show ?thesis
      using planner_fields_exn [of cl w "initial_state tp" e] by (simp add: t)
  next
    case (Inr plan)
    then show ?thesis
      using planner_fields_ok [of cl w "initial_state tp" plan] by (simp add: t)
  qed
qed

lemma all_failed_sections:
  assumes "topic s = tp"
    and "list_all (\<lambda>k. provider_failed (outcome_at w tp k)) [0 ..< 4]"
  shows "search_results (web_searcher_node w s) =
           join_nl (map (\<lambda>k. query_label k (nth_query (topic s) k) @ nl
                               @ projr (run_at w (topic s) k) @ nl) [0 ..< 4])"
    and "list_all (\<lambda>k. error_text (projr (run_at w tp k))) [0 ..< 4]"
proof -
  have f: "provider_failed (outcome_at w tp k)" if "k \<in> set [0 ..< 4]" for k
    using assms(2) that by (simp add: list_all_iff)
  have "map (\<lambda>k. section_text (exc_str w) k (nth_query tp k) (outcome_at w tp k)) [0 ..< 4]
        = map (\<lambda>k. query_label k (nth_query tp k) @ nl @ projr (run_at w tp k) @ nl) [0 ..< 4]"
    by (rule map_cong [OF refl]) (rule section_of_failure [OF f])
  then show "search_results (web_searcher_node w s) =
           join_nl (map (\<lambda>k. query_label k (nth_query (topic s) k) @ nl
                               @ projr (run_at w (topic s) k) @ nl) [0 ..< 4])"
    using \<open>topic s = tp\<close> by (simp only: searcher_results)
  have "error_text (projr (run_at w tp k))" if "k \<in> set [0 ..< 4]" for k
    using failed_text [OF f [OF that], of "nth_query tp k"] by (auto simp: run_at_def)
  then show "list_all (\<lambda>k. error_text (projr (run_at w tp k))) [0 ..< 4]"
    by (simp only: list_all_iff) blast
qed

text \<open>
  C1, amended. For every topic and whatever the two services do, \<^verbatim>\<open>research_topic\<close>
  returns a record, by the \<^verbatim>\<open>return\<close> of its \<^verbatim>\<open>try\<close> block (\<^verbatim>\<open>invoke\<close> raises
  nothing, and nothing is raised to the caller). The search results are not empty, and
  the plan is not empty unless the completion client returned the empty text, also when
  both services fail on every call: when every attempt of the completion client ends in
  a failure status, a timeout or a connection failure the fallback plan is substituted,
  and when the provider fails on every search the search results are the four
  error-marked sections. Failure is reported as data: in these texts, and in the error
  field, which is set exactly when the planning stage caught an exception and is null
  otherwise.
\<close>

theorem research_topic_outputs:
  "\<not> isl (invoke_outcome g w (initial_state tp))
   \<and> research_topic g w tp =
       \<lparr>result_research_plan = research_plan (graph_invoke g w (initial_state tp)),
        result_search_results = search_results (graph_invoke g w (initial_state tp)),
        result_error = error (graph_invoke g w (initial_state tp))\<rparr>
   \<and> result_search_results (research_topic g w tp) \<noteq> []
   \<and> (fst (LMStudioLLM_call (llm g) (llm_post w) (planner_prompt tp)) \<noteq> Inr (JStr [])
        \<longrightarrow> result_research_plan (research_topic g w tp) \<noteq> [])
   \<and> ((\<forall>k. attempt_failed (llm_post w (planner_prompt tp) k))
        \<longrightarrow> result_research_plan (research_topic g w tp) \<noteq> [])
   \<and> ((\<forall>k. marked_failure (llm_post w (planner_prompt tp) k))
        \<longrightarrow> result_research_plan (research_topic g w tp) = fallback_plan tp
            \<and> fallback_plan tp \<noteq> []
            \<and> result_error (research_topic g w tp) = None)
   \<and> (list_all (\<lambda>k. provider_failed (outcome_at w tp k)) [0 ..< 4]
        \<longrightarrow> result_search_results (research_topic g w tp) =
              join_nl (map (\<lambda>k. query_label k (nth_query tp k) @ nl
                                  @ projr (run_at w tp k) @ nl) [0 ..< 4])
            \<and> list_all (\<lambda>k. error_text (projr (run_at w tp k))) [0 ..< 4])
   \<and> result_error (research_topic g w tp) =
       (case planner_try (llm g) w tp of
          Inl e \<Rightarrow> Some (''Error in research planning: '' @ exc_str w e)
        | Inr plan \<Rightarrow> None)"
proof -
  have t: "topic (initial_state tp) = tp" by (simp add: initial_state_def)
  have r: "research_topic g w tp =
       \<lparr>result_research_plan = research_plan (graph_invoke g w (initial_state tp)),
        result_search_results = search_results (graph_invoke g w (initial_state tp)),
        result_error = error (graph_invoke g w (initial_state tp))\<rparr>"
    by (simp add: research_topic_def invoke_outcome_def)
  have i: "\<not> isl (invoke_outcome g w (initial_state tp))"
    by (simp add: invoke_outcome_def)
  have a: "result_search_results (research_topic g w tp) \<noteq> []"
    by (simp add: r results_nonempty)
  have b: "result_research_plan (research_topic g w tp) \<noteq> []"
    if "fst (LMStudioLLM_call (llm g) (llm_post w) (planner_prompt tp)) \<noteq> Inr (JStr [])"
    using planner_plan_nonempty [of "llm g" w "initial_state tp"] that
    by (simp add: r t)
  have c: "fst (LMStudioLLM_call (llm g) (llm_post w) (planner_prompt tp)) \<noteq> Inr (JStr [])"
    if "\<forall>k. attempt_failed (llm_post w (planner_prompt tp) k)"
    using failed_attempts_text [of "[0 ..< nat (max_retries (llm g))]" "llm_post w (planner_prompt tp)" "llm g"] that
    by (auto simp: LMStudioLLM_call_def)
  have e: "result_error (research_topic g w tp) =
       (case planner_try (llm g) w tp of
          Inl e \<Rightarrow> Some (''Error in research planning: '' @ exc_str w e)
        | Inr plan \<Rightarrow> None)"
    by (simp add: r planner_error_field)
  have d: "result_research_plan (research_topic g w tp) = fallback_plan tp
            \<and> fallback_plan tp \<noteq> []
            \<and> result_error (research_topic g w tp) = None"
    if "\<forall>k. marked_failure (llm_post w (planner_prompt tp) k)"
    using marked_failures_planner [OF that, of "llm g"]
      planner_fields_ok [of "llm g" w "initial_state tp" "fallback_plan tp"]
    by (simp add: e fallback_nonempty) (simp add: r t)
  have f: "result_search_results (research_topic g w tp) =
              join_nl (map (\<lambda>k. query_label k (nth_query tp k) @ nl
                                  @ projr (run_at w tp k) @ nl) [0 ..< 4])
            \<and> list_all (\<lambda>k. error_text (projr (run_at w tp k))) [0 ..< 4]"
    if "list_all (\<lambda>k. provider_failed (outcome_at w tp k)) [0 ..< 4]"
  proof -
    have "topic (after_planner g w (initial_state tp)) = tp" by (simp add: t)
    from all_failed_sections [OF this that] show ?thesis
      by (simp add: r graph_invoke_def t)
  qed
  from i r a b c d e f show ?thesis by blast
qed

theorem research_topic_outputs_witness:
  "fst (LMStudioLLM_call (llm example_graph) (llm_post world_down) (planner_prompt ''X'')) \<noteq> Inr (JStr [])
   \<and> (\<forall>k. attempt_failed (llm_post world_down (planner_prompt ''X'') k))
   \<and> (\<forall>k. marked_failure (llm_post world_down (planner_prompt ''X'') k))
   \<and> list_all (\<lambda>k. provider_failed (outcome_at world_down ''X'' k)) [0 ..< 4]
   \<and> result_search_results (research_topic example_graph world_down ''X'') \<noteq> []
   \<and> result_research_plan (research_topic example_graph world_down ''X'') = fallback_plan ''X''
   \<and> result_error (research_topic example_graph world_down ''X'') = None
   \<and> list_all (\<lambda>k. error_text (projr (run_at world_down ''X'' k))) [0 ..< 4]"
proof -
  have a: "fst (LMStudioLLM_call (llm example_graph) (llm_post world_down) (planner_prompt ''X'')) \<noteq> Inr (JStr [])"
    by (simp add: LMStudioLLM_call_def upt_rec world_down_def)
  have b: "\<forall>k. attempt_failed (llm_post world_down (planner_prompt ''X'') k)"
    by (simp add: world_down_def attempt_failed_def)
  have c: "\<forall>k. marked_failure (llm_post world_down (planner_prompt ''X'') k)"
    by (simp add: world_down_def marked_failure_def)
  have d: "list_all (\<lambda>k. provider_failed (outcome_at world_down ''X'' k)) [0 ..< 4]"
    by (simp add: world_down_def outcome_at_def provider_failed_def list_all_iff)
  from a b c d research_topic_outputs [of example_graph world_down "''X''"] show ?thesis by blast
qed

text \<open>
  C9. The result of \<^verbatim>\<open>research_topic\<close> is determined by the topic and by the responses
  to the requests that the run makes: two runs on the same topic that get the same
  outcomes for the attempts of the completion call and for the four searches (and the
  same texts for exceptions) return the same plan, the same search results and the same
  error, whatever else differs around them.
\<close>

theorem same_responses_same_result:
  assumes "list_all (\<lambda>k. llm_post w1 (planner_prompt tp) k = llm_post w2 (planner_prompt tp) k)
             [0 ..< nat (max_retries (llm g))]"
    and "list_all (\<lambda>(k, q). tavily_post w1 k q = tavily_post w2 k q)
             (enumerate 0 (search_queries tp))"
    and "exc_str w1 = exc_str w2"
  shows "research_topic g w1 tp = research_topic g w2 tp"
proof -
  have t: "topic (initial_state tp) = tp" by (simp add: initial_state_def)
  have "call_loop (llm g) (llm_post w1 (planner_prompt tp)) [0 ..< nat (max_retries (llm g))]
        = call_loop (llm g) (llm_post w2 (planner_prompt tp)) [0 ..< nat (max_retries (llm g))]"
    using assms(1) by (intro call_loop_cong) (simp add: list_all_iff)
  then have p: "planner_try (llm g) w1 tp = planner_try (llm g) w2 tp"
    by (simp add: planner_try_def LLM_call_def LMStudioLLM_call_def)
  have plan: "research_plan (research_planner_node (llm g) w1 (initial_state tp))
            = research_plan (research_planner_node (llm g) w2 (initial_state tp))"
    and err: "error (research_planner_node (llm g) w1 (initial_state tp))
            = error (research_planner_node (llm g) w2 (initial_state tp))"
    using p assms(3) by (simp_all add: research_planner_node_def t split: sum.splits)
  have "\<forall>(k, q) \<in> set (enumerate 0 (search_queries tp)). tavily_post w1 k q = tavily_post w2 k q"
    using assms(2) by (simp add: list_all_iff)
  then have "search_loop w1 0 (search_queries tp) ([], 0, []) = search_loop w2 0 (search_queries tp) ([], 0, [])"
    using assms(3) by (rule search_loop_cong)
  then have res: "search_results (graph_invoke g w1 (initial_state tp))
                = search_results (graph_invoke g w2 (initial_state tp))"
    by (simp add: graph_invoke_def t)
  show ?thesis
    by (simp add: research_topic_def invoke_outcome_def plan err res)
qed

theorem same_responses_same_result_witness:
  "list_all (\<lambda>k. llm_post world_ok (planner_prompt ''X'') k
                   = llm_post world_ok_elsewhere (planner_prompt ''X'') k)
      [0 ..< nat (max_retries (llm example_graph))]
   \<and> list_all (\<lambda>(k, q). tavily_post world_ok k q = tavily_post world_ok_elsewhere k q)
      (enumerate 0 (search_queries ''X''))
   \<and> exc_str world_ok = exc_str world_ok_elsewhere
   \<and> world_ok \<noteq> world_ok_elsewhere
   \<and> research_topic example_graph world_ok ''X'' = research_topic example_graph world_ok_elsewhere ''X''"
proof -
  have a: "list_all (\<lambda>k. llm_post world_ok (planner_prompt ''X'') k
                   = llm_post world_ok_elsewhere (planner_prompt ''X'') k)
      [0 ..< nat (max_retries (llm example_graph))]"
    by (simp add: world_ok_def world_ok_elsewhere_def upt_rec)
  have b: "list_all (\<lambda>(k, q). tavily_post world_ok k q = tavily_post world_ok_elsewhere k q)
      (enumerate 0 (search_queries ''X''))"
    by (simp add: world_ok_def world_ok_elsewhere_def search_queries_def)
  have c: "exc_str world_ok = exc_str world_ok_elsewhere"
    by (simp add: world_ok_def world_ok_elsewhere_def)
  have d: "shares_state world_ok \<noteq> shares_state world_ok_elsewhere"
    by (simp add: world_ok_def world_ok_elsewhere_def)
  then have "world_ok \<noteq> world_ok_elsewhere" by auto
  with a b c same_responses_same_result [OF a b c] show ?thesis by simp
qed

end
